theory Spec2Isabelle
  imports Main
begin

section \<open>Strings, dates and configuration\<close>

text \<open>
  A Python \<open>str\<close> is a sequence of Unicode code points and \<open>len\<close> counts code points,
  so a string is modelled as a list of code points. ASCII pieces of a literal are written
  as HOL strings and converted by \<open>ascii\<close>; the other code points of the literals of
  \<open>bot.py\<close> are written as numbers.
\<close>

type_synonym pystr = "nat list"

definition ascii :: "string \<Rightarrow> pystr" where
  "ascii s = map of_char s"

text \<open>\<open>str(n)\<close> for a non-negative integer.\<close>

fun str_nat :: "nat \<Rightarrow> pystr" where
  "str_nat n = (if n < 10 then [48 + n] else str_nat (n div 10) @ [48 + n mod 10])"

declare str_nat.simps [simp del]

text \<open>\<open>sep.join(xs)\<close>.\<close>

fun join :: "pystr \<Rightarrow> pystr list \<Rightarrow> pystr" where
  "join sep [] = []"
| "join sep [x] = x"
| "join sep (x # y # ys) = x @ sep @ join sep (y # ys)"

text \<open>\<open>s.lower()\<close>: the letters A to Z are mapped to a to z.\<close>

definition lower :: "pystr \<Rightarrow> pystr" where
  "lower s = map (\<lambda>c. if 65 \<le> c \<and> c \<le> 90 then c + 32 else c) s"

fun startswith :: "pystr \<Rightarrow> pystr \<Rightarrow> bool" where
  "startswith s [] = True"
| "startswith [] (p # ps) = False"
| "startswith (c # s) (p # ps) = (c = p \<and> startswith s ps)"

text \<open>\<open>p in s\<close> for strings: \<open>p\<close> occurs in \<open>s\<close> as a substring.\<close>

fun contains :: "pystr \<Rightarrow> pystr \<Rightarrow> bool" where
  "contains p [] = (p = [])"
| "contains p (c # s) = (startswith (c # s) p \<or> contains p s)"

text \<open>
  The reading of the clock, \<open>datetime.now(timezone.utc)\<close>. The model passes it to every
  function that reads the clock.
\<close>

record datetime =
  year :: nat
  month :: nat
  day :: nat
  hour :: nat
  minute :: nat
  second :: nat
  microsecond :: nat

definition zfill :: "nat \<Rightarrow> pystr \<Rightarrow> pystr" where
  "zfill w s = replicate (w - length s) 48 @ s"

text \<open>\<open>strftime('%d/%m/%Y %H:%M')\<close>: zero-padded fields, as in the Python documentation.\<close>

definition strftime :: "datetime \<Rightarrow> pystr" where
  "strftime t = zfill 2 (str_nat (day t)) @ ascii ''/'' @ zfill 2 (str_nat (month t)) @ ascii ''/''
     @ zfill 4 (str_nat (year t)) @ ascii '' '' @ zfill 2 (str_nat (hour t)) @ ascii '':''
     @ zfill 2 (str_nat (minute t))"

definition MAX_MSG_LENGTH :: nat where
  "MAX_MSG_LENGTH = 4000"

definition NJUMP_BASE :: pystr where
  "NJUMP_BASE = ascii ''https://njump.me/''"

section \<open>Profiles and display names\<close>

text \<open>
  A row of the table \<open>profiles\<close>, as the dictionary that \<open>dict(row)\<close> gives. A column that
  may hold NULL is an option. \<open>added_at\<close> holds the ISO text of a clock reading; the model
  keeps the reading itself.
\<close>

record profile =
  npub :: pystr
  telegram_user_id :: int
  telegram_username :: "pystr option"
  telegram_name :: "pystr option"
  added_at :: datetime
  web_consent :: bool
  custom_name :: "pystr option"

text \<open>
  Python's truth value of \<open>profile.get(key)\<close>: \<open>None\<close> and the empty string are false.
\<close>

definition truthy :: "pystr option \<Rightarrow> bool" where
  "truthy v = (case v of None \<Rightarrow> False | Some s \<Rightarrow> s \<noteq> [])"

definition ANONIMO :: pystr where
  "ANONIMO = ascii ''An'' @ [243] @ ascii ''nimo''"

definition get_display_name :: "profile \<Rightarrow> pystr" where
  "get_display_name p =
     (if truthy (custom_name p) then the (custom_name p)
      else if truthy (telegram_username p) then ascii ''@'' @ the (telegram_username p)
      else if truthy (telegram_name p) then the (telegram_name p) else ANONIMO)"

section \<open>The renderer\<close>

definition format_profile_line :: "nat \<Rightarrow> profile \<Rightarrow> pystr" where
  "format_profile_line idx p =
     (let display = get_display_name p;
          npub_short = take 16 (npub p) @ ascii ''...''
      in str_nat idx @ ascii ''. '' @ display @ [32, 8594, 32] @ ascii ''<a href='' @ [39]
         @ NJUMP_BASE @ npub p @ [39] @ ascii ''>'' @ npub_short @ ascii ''</a>'')"

definition HEADER_FIRST :: pystr where
  "HEADER_FIRST = [128995] @ ascii '' <b>Directorio Nostr del grupo</b>\<newline>\<newline>''"

definition HEADER_CONT :: pystr where
  "HEADER_CONT = [128995] @ ascii '' <b>Directorio Nostr (continuaci'' @ [243]
     @ ascii ''n)</b>\<newline>\<newline>''"

definition chain_note :: pystr where
  "chain_note = ascii ''\<newline>\<newline>'' @ [11015, 65039] @ ascii '' <i>Contin'' @ [250]
     @ ascii ''a en el siguiente mensaje...</i>''"

text \<open>\<open>footer_template.format(count=count, date=date)\<close>.\<close>

definition footer_template :: "nat \<Rightarrow> pystr \<Rightarrow> pystr" where
  "footer_template count date = ascii ''\<newline>\<newline>'' @ [128202] @ ascii '' '' @ str_nat count
     @ ascii '' perfiles | Actualizado: '' @ date @ ascii '' UTC''"

text \<open>The single chunk returned for an empty profile list.\<close>

definition empty_directory :: "pystr \<Rightarrow> pystr" where
  "empty_directory date = [128995] @ ascii '' <b>Directorio Nostr del grupo</b>\<newline>\<newline>''
     @ ascii ''<i>A'' @ [250] @ ascii ''n no hay perfiles registrados.</i>\<newline>''
     @ ascii ''Env'' @ [237] @ ascii ''a tu <code>npub1...</code> para aparecer aqu'' @ [237]
     @ ascii ''.\<newline>\<newline>''
     @ [128202] @ ascii '' 0 perfiles | Actualizado: '' @ date @ ascii '' UTC''"

text \<open>
  The loop of \<open>build_directory_messages\<close> over \<open>enumerate(profiles, 1)\<close>. Its state is
  \<open>(messages, current_lines, current_length, header)\<close>; \<open>count\<close> is \<open>len(profiles)\<close>.
\<close>

type_synonym pack_state = "pystr list \<times> pystr list \<times> nat \<times> pystr"

fun pack_loop :: "nat \<Rightarrow> pystr \<Rightarrow> (nat \<times> profile) list \<Rightarrow> pack_state \<Rightarrow> pack_state" where
  "pack_loop count date_str [] st = st"
| "pack_loop count date_str ((i, p) # rest) (messages, current_lines, current_length, header) =
     (let line = format_profile_line i p;
          line_length = length line + 1;
          footer = footer_template count date_str
      in if current_length + line_length + length footer + length chain_note > MAX_MSG_LENGTH
         then pack_loop count date_str rest
                (messages @ [header @ join (ascii ''\<newline>'') current_lines @ chain_note],
                 [] @ [line], length header + line_length, HEADER_CONT)
         else pack_loop count date_str rest
                (messages, current_lines @ [line], current_length + line_length, header))"

text \<open>
  \<open>build_directory_messages(profiles, chat_id)\<close>. The source reads the clock itself, once;
  \<open>now\<close> is that reading.
\<close>

definition build_directory_messages :: "datetime \<Rightarrow> profile list \<Rightarrow> int \<Rightarrow> pystr list" where
  "build_directory_messages now profiles cid =
     (if profiles = [] then [empty_directory (strftime now)]
      else
        let date_str = strftime now;
            (messages, current_lines, current_length, header) =
              pack_loop (length profiles) date_str (zip [1 ..< Suc (length profiles)] profiles)
                ([], [], length HEADER_FIRST, HEADER_FIRST);
            footer = footer_template (length profiles) date_str
        in messages @ [header @ join (ascii ''\<newline>'') current_lines @ footer])"

text \<open>
  The clock as the program finds it: \<open>clock w k\<close> is what the clock shows at its
  reading number \<open>k\<close>, and \<open>reads w\<close> counts the readings taken so far.
  \<open>datetime_now\<close> is \<open>datetime.now(timezone.utc)\<close>: it takes the next reading.
\<close>

record world =
  clock :: "nat \<Rightarrow> datetime"
  reads :: nat

definition datetime_now :: "world \<Rightarrow> datetime \<times> world" where
  "datetime_now w = (clock w (reads w), w\<lparr>reads := Suc (reads w)\<rparr>)"

text \<open>
  \<open>build_directory_messages(profiles, chat_id)\<close> as a run: its arguments are those of
  the source, and the clock is read where the source reads it, in the branch for an empty
  list at line 273 and in the other branch at line 278.
\<close>

definition build_directory_messages_io :: "profile list \<Rightarrow> int \<Rightarrow> world \<Rightarrow> pystr list \<times> world" where
  "build_directory_messages_io profiles cid w =
     (if profiles = [] then
        (case datetime_now w of (now, w') \<Rightarrow> ([empty_directory (strftime now)], w'))
      else
        (case datetime_now w of (now, w') \<Rightarrow>
           (let date_str = strftime now;
                (messages, current_lines, current_length, header) =
                  pack_loop (length profiles) date_str (zip [1 ..< Suc (length profiles)] profiles)
                    ([], [], length HEADER_FIRST, HEADER_FIRST);
                footer = footer_template (length profiles) date_str
            in (messages @ [header @ join (ascii ''\<newline>'') current_lines @ footer], w'))))"

section \<open>The pinned-message ledger\<close>

text \<open>
  A row of the table \<open>pinned_messages\<close>; the table is the list of its rows in the order of
  insertion. \<open>created_at\<close> keeps the clock reading whose ISO text the source stores.
\<close>

record pinned_row =
  row_id :: nat
  chat_id :: int
  message_id :: int
  profile_count :: nat
  is_current :: bool
  created_at :: datetime

text \<open>
  The key that AUTOINCREMENT gives to a new row: one more than the largest key used so
  far (no statement of the source deletes a row of this table).
\<close>

definition next_row_id :: "pinned_row list \<Rightarrow> nat" where
  "next_row_id tbl = Suc (fold max (map row_id tbl) 0)"

definition save_pinned_message ::
  "datetime \<Rightarrow> int \<Rightarrow> int \<Rightarrow> nat \<Rightarrow> pinned_row list \<Rightarrow> pinned_row list" where
  "save_pinned_message now cid mid n tbl =
     map (\<lambda>r. if chat_id r = cid then r\<lparr>is_current := False\<rparr> else r) tbl
     @ [\<lparr>row_id = next_row_id tbl, chat_id = cid, message_id = mid, profile_count = n,
         is_current = True, created_at = now\<rparr>]"

definition get_current_pinned :: "int \<Rightarrow> pinned_row list \<Rightarrow> pinned_row option" where
  "get_current_pinned cid tbl = find (\<lambda>r. chat_id r = cid \<and> is_current r) tbl"

section \<open>The channel transport and the reconciler\<close>

text \<open>
  The calls that \<open>update_pinned_directory\<close> makes on \<open>context.bot\<close>. A call either returns
  (for \<open>send_message\<close>, the \<open>message_id\<close> of the message sent) or raises. The source
  catches \<open>BadRequest\<close> only; \<open>TelegramError\<close> stands for every other exception of the
  transport (a timeout, a network error, a refusal). The transport is a parameter of the
  model: its answer to a call may depend on the calls made before it.
\<close>

datatype call =
    EditMessageText int int pystr
  | SendMessage int pystr "int option"
  | PinChatMessage int int

datatype tg_error = BadRequest pystr | TelegramError pystr

type_synonym transport = "call list \<Rightarrow> call \<Rightarrow> tg_error + int"

datatype outcome = Returned | RaisedTelegram tg_error | RaisedIndexError

text \<open>The result of a run: the ledger, the calls made in order, and how the run ended.\<close>

type_synonym run = "pinned_row list \<times> call list \<times> outcome"

text \<open>
  Lines 331 to 341: the edit of the current message to chunk 0 when there are several
  chunks. The result is the calls made and the exception that leaves the function, if any.
\<close>

definition best_effort_edit ::
  "transport \<Rightarrow> int \<Rightarrow> pystr list \<Rightarrow> pinned_row option \<Rightarrow> call list \<Rightarrow> call list \<times> tg_error option" where
  "best_effort_edit tg cid messages_text current_pinned tr =
     (case current_pinned of
        None \<Rightarrow> (tr, None)
      | Some cur \<Rightarrow>
          if length messages_text > 1 then
            (let c = EditMessageText cid (message_id cur) (messages_text ! 0)
             in case tg tr c of
                  Inr _ \<Rightarrow> (tr @ [c], None)
                | Inl (BadRequest e) \<Rightarrow> (tr @ [c], None)
                | Inl (TelegramError e) \<Rightarrow> (tr @ [c], Some (TelegramError e)))
          else (tr, None))"

text \<open>
  Lines 345 to 355: the loop over \<open>enumerate(messages_text)\<close>; \<open>cp\<close> is the truth value
  of \<open>current_pinned\<close>, \<open>kw\<close> the thread of \<open>thread_kwargs\<close>, \<open>last_msg\<close> the identifier
  of the last message sent.
\<close>

fun send_loop ::
  "transport \<Rightarrow> int \<Rightarrow> int option \<Rightarrow> bool \<Rightarrow> (nat \<times> pystr) list \<Rightarrow> call list \<Rightarrow> int option
     \<Rightarrow> call list \<times> (tg_error + int option)" where
  "send_loop tg cid kw cp [] tr last_msg = (tr, Inr last_msg)"
| "send_loop tg cid kw cp ((i, text) # rest) tr last_msg =
     (if i = 0 \<and> cp then send_loop tg cid kw cp rest tr last_msg
      else case tg tr (SendMessage cid text kw) of
             Inl e \<Rightarrow> (tr @ [SendMessage cid text kw], Inl e)
           | Inr mid \<Rightarrow> send_loop tg cid kw cp rest (tr @ [SendMessage cid text kw]) (Some mid))"

text \<open>
  Lines 358 to 367, and the same statements at lines 377 to 386: pin the message, and
  after a pin that returned record it in the ledger.
\<close>

definition pin_and_save ::
  "transport \<Rightarrow> datetime \<Rightarrow> int \<Rightarrow> int \<Rightarrow> nat \<Rightarrow> pinned_row list \<Rightarrow> call list \<Rightarrow> run" where
  "pin_and_save tg now cid mid n tbl tr =
     (case tg tr (PinChatMessage cid mid) of
        Inr _ \<Rightarrow> (save_pinned_message now cid mid n tbl, tr @ [PinChatMessage cid mid], Returned)
      | Inl (BadRequest e) \<Rightarrow> (tbl, tr @ [PinChatMessage cid mid], Returned)
      | Inl (TelegramError e) \<Rightarrow>
          (tbl, tr @ [PinChatMessage cid mid], RaisedTelegram (TelegramError e)))"

text \<open>Lines 331 to 386: what \<open>update_pinned_directory\<close> does after the one-chunk edit.\<close>

definition send_and_pin ::
  "transport \<Rightarrow> int \<Rightarrow> datetime \<Rightarrow> int \<Rightarrow> pystr list \<Rightarrow> nat \<Rightarrow> pinned_row option \<Rightarrow> pinned_row list
     \<Rightarrow> call list \<Rightarrow> run" where
  "send_and_pin tg thread now cid messages_text n current_pinned tbl tr =
     (case best_effort_edit tg cid messages_text current_pinned tr of
        (tr1, Some e) \<Rightarrow> (tbl, tr1, RaisedTelegram e)
      | (tr1, None) \<Rightarrow>
          (let thread_kwargs = (if thread \<noteq> 0 then Some thread else None)
           in case send_loop tg cid thread_kwargs (current_pinned \<noteq> None)
                     (zip [0 ..< length messages_text] messages_text) tr1 None of
                (tr2, Inl e) \<Rightarrow> (tbl, tr2, RaisedTelegram e)
              | (tr2, Inr (Some mid)) \<Rightarrow> pin_and_save tg now cid mid n tbl tr2
              | (tr2, Inr None) \<Rightarrow>
                  if current_pinned = None then
                    (case messages_text of
                       [] \<Rightarrow> (tbl, tr2, RaisedIndexError)
                     | text # _ \<Rightarrow>
                         (case tg tr2 (SendMessage cid text thread_kwargs) of
                            Inl e \<Rightarrow> (tbl, tr2 @ [SendMessage cid text thread_kwargs], RaisedTelegram e)
                          | Inr mid \<Rightarrow>
                              pin_and_save tg now cid mid n tbl
                                (tr2 @ [SendMessage cid text thread_kwargs])))
                  else (tbl, tr2, Returned)))"

definition NOT_MODIFIED :: pystr where
  "NOT_MODIFIED = ascii ''message is not modified''"

text \<open>
  Lines 313 to 386 of \<open>update_pinned_directory\<close>: the reconciliation of the chunks
  \<open>messages_text\<close> with the ledger; \<open>n\<close> is \<open>len(profiles)\<close>, \<open>thread\<close> is
  \<open>ALLOWED_THREAD_ID\<close>, \<open>now\<close> the clock reading of \<open>save_pinned_message\<close>.
\<close>

definition reconcile ::
  "transport \<Rightarrow> int \<Rightarrow> datetime \<Rightarrow> int \<Rightarrow> pystr list \<Rightarrow> nat \<Rightarrow> pinned_row list \<Rightarrow> run" where
  "reconcile tg thread now cid messages_text n tbl =
     (let current_pinned = get_current_pinned cid tbl
      in case current_pinned of
           None \<Rightarrow> send_and_pin tg thread now cid messages_text n current_pinned tbl []
         | Some cur \<Rightarrow>
             if length messages_text = 1 then
               (let c = EditMessageText cid (message_id cur) (messages_text ! 0)
                in case tg [] c of
                     Inr _ \<Rightarrow> (tbl, [c], Returned)
                   | Inl (BadRequest e) \<Rightarrow>
                       if contains NOT_MODIFIED (lower e) then (tbl, [c], Returned)
                       else send_and_pin tg thread now cid messages_text n current_pinned tbl [c]
                   | Inl (TelegramError e) \<Rightarrow> (tbl, [c], RaisedTelegram (TelegramError e)))
             else send_and_pin tg thread now cid messages_text n current_pinned tbl [])"

text \<open>
  \<open>update_pinned_directory(context, chat_id)\<close>; \<open>profiles\<close> is what \<open>get_all_profiles()\<close>
  returned, \<open>t_render\<close> and \<open>t_save\<close> are the two clock readings.
\<close>

definition update_pinned_directory ::
  "transport \<Rightarrow> int \<Rightarrow> datetime \<Rightarrow> datetime \<Rightarrow> int \<Rightarrow> profile list \<Rightarrow> pinned_row list \<Rightarrow> run" where
  "update_pinned_directory tg thread t_render t_save cid profiles tbl =
     reconcile tg thread t_save cid (build_directory_messages t_render profiles cid)
       (length profiles) tbl"

section \<open>The profile store in \<open>handle_message\<close>\<close>

datatype db_error = IntegrityError

datatype reply = AlreadyInDirectory | NpubUpdated | NpubTaken | ProfileAdded

definition get_profile_by_user :: "int \<Rightarrow> profile list \<Rightarrow> profile option" where
  "get_profile_by_user uid tbl = find (\<lambda>r. telegram_user_id r = uid) tbl"

text \<open>
  \<open>UPDATE profiles SET npub = ? WHERE telegram_user_id = ?\<close> on a table whose column
  \<open>npub\<close> is the primary key: the statement fails, and changes nothing, when it would
  leave two rows with one key.
\<close>

definition update_npub :: "pystr \<Rightarrow> int \<Rightarrow> profile list \<Rightarrow> db_error + profile list" where
  "update_npub new uid tbl =
     (let tbl' = map (\<lambda>r. if telegram_user_id r = uid then r\<lparr>npub := new\<rparr> else r) tbl
      in if distinct (map npub tbl') then Inr tbl' else Inl IntegrityError)"

definition add_profile ::
  "datetime \<Rightarrow> pystr \<Rightarrow> int \<Rightarrow> pystr option \<Rightarrow> pystr \<Rightarrow> profile list \<Rightarrow> bool \<times> profile list" where
  "add_profile now new uid username name tbl =
     (if new \<in> set (map npub tbl) then (False, tbl)
      else (True, tbl @ [\<lparr>npub = new, telegram_user_id = uid, telegram_username = username,
              telegram_name = Some name, added_at = now, web_consent = False,
              custom_name = None\<rparr>]))"

text \<open>
  Lines 495 to 528 of \<open>handle_message\<close>, once an npub was found in the text: what the
  handler does to the table \<open>profiles\<close> and which reply it sends. \<open>new\<close> is
  \<open>matches[0].lower()\<close>. The calls of \<open>update_pinned_directory\<close> and \<open>save_web_json\<close>
  that follow do not write to this table. An \<open>IntegrityError\<close> of the update is not
  caught by the handler.
\<close>

definition handle_message ::
  "datetime \<Rightarrow> int \<Rightarrow> pystr option \<Rightarrow> pystr \<Rightarrow> pystr \<Rightarrow> profile list
     \<Rightarrow> (db_error + reply) \<times> profile list" where
  "handle_message now uid username user_name new tbl =
     (case get_profile_by_user uid tbl of
        Some existing \<Rightarrow>
          if npub existing = new then (Inr AlreadyInDirectory, tbl)
          else (case update_npub new uid tbl of
                  Inl e \<Rightarrow> (Inl e, tbl)
                | Inr tbl' \<Rightarrow> (Inr NpubUpdated, tbl'))
      | None \<Rightarrow>
          (case add_profile now new uid username user_name tbl of
             (True, tbl') \<Rightarrow> (Inr ProfileAdded, tbl')
           | (False, tbl') \<Rightarrow> (Inr NpubTaken, tbl')))"

section \<open>The layout of the chunks\<close>

text \<open>
  The layout that the specification gives to the chunks, for a list of groups of lines:
  the first chunk has the primary header and every later chunk the continuation header;
  every chunk but the last ends with the continuation note, the last one with
  \<open>ending\<close>; the lines of a group are joined by newlines.
\<close>

fun chunk_layout :: "pystr \<Rightarrow> pystr \<Rightarrow> pystr list list \<Rightarrow> pystr list" where
  "chunk_layout h ending [] = []"
| "chunk_layout h ending [g] = [h @ join (ascii ''\<newline>'') g @ ending]"
| "chunk_layout h ending (g # g' # gs) =
     (h @ join (ascii ''\<newline>'') g @ chain_note) # chunk_layout HEADER_CONT ending (g' # gs)"

text \<open>
  What \<open>datetime\<close> guarantees of a clock reading.
\<close>

definition is_datetime :: "datetime \<Rightarrow> bool" where
  "is_datetime t = (1 \<le> year t \<and> year t \<le> 9999 \<and> 1 \<le> month t \<and> month t \<le> 12 \<and> 1 \<le> day t \<and> day t \<le> 31
     \<and> hour t \<le> 23 \<and> minute t \<le> 59 \<and> second t \<le> 59 \<and> microsecond t \<le> 999999)"

section \<open>Properties of ledgers and runs\<close>

text \<open>
  The predicates in which the claims about the ledger and the reconciler are stated:
  at most one current entry for each channel; an old entry is kept as it was or with
  only its flag cleared; the old ledger is a prefix of the new one up to cleared flags.
\<close>

definition at_most_one_current :: "pinned_row list \<Rightarrow> bool" where
  "at_most_one_current tbl =
     list_all (\<lambda>r. length (filter (\<lambda>s. chat_id s = chat_id r \<and> is_current s) tbl) \<le> 1) tbl"

definition superseded_or_same :: "pinned_row \<Rightarrow> pinned_row \<Rightarrow> bool" where
  "superseded_or_same old new = (new = old \<or> new = old\<lparr>is_current := False\<rparr>)"

definition history_kept :: "pinned_row list \<Rightarrow> pinned_row list \<Rightarrow> bool" where
  "history_kept old new =
     (length old \<le> length new \<and> list_all2 superseded_or_same old (take (length old) new))"

fun is_send :: "call \<Rightarrow> bool" where
  "is_send (SendMessage c t k) = True"
| "is_send _ = False"

fun is_pin :: "call \<Rightarrow> bool" where
  "is_pin (PinChatMessage c m) = True"
| "is_pin _ = False"

section \<open>Example inputs\<close>

definition t0 :: datetime where
  "t0 = \<lparr>year = 2024, month = 5, day = 17, hour = 9, minute = 30, second = 0, microsecond = 0\<rparr>"

definition t1 :: datetime where
  "t1 = \<lparr>year = 2024, month = 5, day = 17, hour = 9, minute = 31, second = 0, microsecond = 0\<rparr>"

definition example_profile :: "pystr option \<Rightarrow> pystr option \<Rightarrow> pystr option \<Rightarrow> profile" where
  "example_profile custom username name =
     \<lparr>npub = ascii ''npub1qqqqqqqqqqqqqqqqqqqqqqqqqqqqqqqqqqqqqqqqqqqqqqqqqqqqqqqqqq'',
      telegram_user_id = 42, telegram_username = username, telegram_name = name,
      added_at = t0, web_consent = False, custom_name = custom\<rparr>"

definition example_row :: pinned_row where
  "example_row = \<lparr>row_id = 1, chat_id = - 100, message_id = 500, profile_count = 3,
     is_current = True, created_at = t0\<rparr>"

definition tg_ok :: transport where
  "tg_ok tr c = Inr (600 + int (length tr))"

definition tg_not_modified :: transport where
  "tg_not_modified tr c =
     (case c of
        EditMessageText _ _ _ \<Rightarrow> Inl (BadRequest (ascii ''Message is not modified: specified new message content and reply markup are exactly the same as a current content and reply markup of the message''))
      | _ \<Rightarrow> Inr (600 + int (length tr)))"

definition tg_edit_not_found :: transport where
  "tg_edit_not_found tr c =
     (case c of
        EditMessageText _ _ _ \<Rightarrow> Inl (BadRequest (ascii ''Message to edit not found''))
      | _ \<Rightarrow> Inr (600 + int (length tr)))"


definition world_at :: "datetime \<Rightarrow> world" where
  "world_at t = \<lparr>clock = (\<lambda>k. t), reads = 0\<rparr>"

definition other_npub :: pystr where
  "other_npub = ascii ''npub1zzzzzzzzzzzzzzzzzzzzzzzzzzzzzzzzzzzzzzzzzzzzzzzzzzzzzzzzzz''"

definition long_name :: pystr where
  "long_name = replicate 4000 97"

section \<open>Display-name precedence\<close>

text \<open>
  C8. The display name follows the precedence custom name, then handle with an at sign,
  then fallback name, then the placeholder. A field is present when it holds a non-empty
  string, which is the test the source makes. A custom name that is present is shown
  whatever the handle and the fallback name are; without it a present handle is shown
  after an at sign; with neither, a present fallback name is shown; the placeholder is
  what is left when none of the three is present.
\<close>

theorem display_name_precedence:
  "(custom_name p = Some c \<and> c \<noteq> [] \<longrightarrow> get_display_name p = c) \<and>
   (\<not> truthy (custom_name p) \<and> telegram_username p = Some u \<and> u \<noteq> []
      \<longrightarrow> get_display_name p = ascii ''@'' @ u) \<and>
   (\<not> truthy (custom_name p) \<and> \<not> truthy (telegram_username p) \<and> telegram_name p = Some f \<and> f \<noteq> []
      \<longrightarrow> get_display_name p = f) \<and>
   (\<not> truthy (custom_name p) \<and> \<not> truthy (telegram_username p) \<and> \<not> truthy (telegram_name p)
      \<longrightarrow> get_display_name p = ANONIMO)"
  by (auto simp: get_display_name_def truthy_def)

theorem display_name_precedence_witness:
  "get_display_name (example_profile (Some (ascii ''Satoshi'')) (Some (ascii ''bob'')) (Some (ascii ''Bob B''))) = ascii ''Satoshi'' \<and>
   get_display_name (example_profile None (Some (ascii ''bob'')) (Some (ascii ''Bob B''))) = ascii ''@bob'' \<and>
   get_display_name (example_profile (Some []) None (Some (ascii ''Bob B''))) = ascii ''Bob B'' \<and>
   get_display_name (example_profile None None (Some [])) = ANONIMO"
  using display_name_precedence [of "example_profile (Some (ascii ''Satoshi'')) (Some (ascii ''bob'')) (Some (ascii ''Bob B''))" "ascii ''Satoshi''"]
    display_name_precedence [of "example_profile None (Some (ascii ''bob'')) (Some (ascii ''Bob B''))" _ "ascii ''bob''"]
    display_name_precedence [of "example_profile (Some []) None (Some (ascii ''Bob B''))" _ _ "ascii ''Bob B''"]
    display_name_precedence [of "example_profile None None (Some [])"]
  by (simp add: example_profile_def truthy_def ascii_def)

section \<open>The ledger invariant\<close>

lemma at_most_one_current_iff: "at_most_one_current tbl \<longleftrightarrow> (\<forall>c. length (filter (\<lambda>s. chat_id s = c \<and> is_current s) tbl) \<le> 1)"
proof
  assume a: "at_most_one_current tbl"
  show "\<forall>c. length (filter (\<lambda>s. chat_id s = c \<and> is_current s) tbl) \<le> 1"
  proof
    fix c
    show "length (filter (\<lambda>s. chat_id s = c \<and> is_current s) tbl) \<le> 1"
    proof (cases "\<exists>r\<in>set tbl. chat_id r = c")
      case True
      then show ?thesis using a by (auto simp: at_most_one_current_def list_all_iff)
    next
      case False
      then have "filter (\<lambda>s. chat_id s = c \<and> is_current s) tbl = []"
        by (auto simp: filter_empty_conv)
      then show ?thesis by simp
    qed
  qed
next
  assume "\<forall>c. length (filter (\<lambda>s. chat_id s = c \<and> is_current s) tbl) \<le> 1"
  then show "at_most_one_current tbl" by (simp add: at_most_one_current_def list_all_iff)
qed

lemma filter_supersede:
  "filter (\<lambda>s. chat_id s = c \<and> is_current s) (map (\<lambda>r. if chat_id r = cid then r\<lparr>is_current := False\<rparr> else r) tbl)
   = (if c = cid then [] else filter (\<lambda>s. chat_id s = c \<and> is_current s) tbl)"
  by (induction tbl) auto

lemma save_keeps_invariant:
  "at_most_one_current tbl \<Longrightarrow> at_most_one_current (save_pinned_message now cid mid n tbl)"
  unfolding at_most_one_current_iff save_pinned_message_def
  by (auto simp: filter_supersede)

lemma history_kept_refl: "history_kept tbl tbl"
  by (simp add: history_kept_def superseded_or_same_def list_all2_same)

lemma save_keeps_history: "history_kept tbl (save_pinned_message now cid mid n tbl)"
  by (auto simp: history_kept_def save_pinned_message_def superseded_or_same_def list_all2_conv_all_nth)

lemma pin_and_save_cases:
  "pin_and_save tg now cid mid n tbl tr = (tbl', tr', out) \<Longrightarrow>
     tbl' = tbl \<or> tbl' = save_pinned_message now cid mid n tbl"
  by (auto simp: pin_and_save_def split: sum.splits tg_error.splits)

lemma send_and_pin_cases:
  "send_and_pin tg thread now cid ms n cp tbl tr = (tbl', tr', out) \<Longrightarrow>
     tbl' = tbl \<or> (\<exists>mid. tbl' = save_pinned_message now cid mid n tbl)"
  by (auto simp: send_and_pin_def Let_def split: prod.splits option.splits sum.splits list.splits if_splits
      dest!: pin_and_save_cases)

lemma reconcile_cases:
  "reconcile tg thread now cid ms n tbl = (tbl', tr', out) \<Longrightarrow>
     tbl' = tbl \<or> (\<exists>mid. tbl' = save_pinned_message now cid mid n tbl)"
  by (auto simp: reconcile_def Let_def split: option.splits sum.splits tg_error.splits if_splits
      dest!: send_and_pin_cases)

lemma example_current: "get_current_pinned (- 100) [example_row] = Some example_row"
  by (simp add: get_current_pinned_def example_row_def)

lemma example_ledger_ok: "at_most_one_current [example_row]"
  by (simp add: at_most_one_current_def)

text \<open>
  C7. The ledger starts empty, where the invariant holds. Every operation of the program
  on the ledger, \<open>save_pinned_message\<close> and with it the reconciler, leaves at most
  one current entry for each channel (\<open>at_most_one_current_iff\<close> gives the predicate
  channel by channel), and deletes nothing: every old entry is still there, at its place,
  unchanged or with only its flag cleared.
\<close>

theorem ledger_invariant:
  "at_most_one_current [] \<and>
   (at_most_one_current tbl \<longrightarrow>
      at_most_one_current (save_pinned_message now cid mid n tbl) \<and>
      history_kept tbl (save_pinned_message now cid mid n tbl) \<and>
      at_most_one_current (fst (reconcile tg thread now cid chunks n tbl)) \<and>
      history_kept tbl (fst (reconcile tg thread now cid chunks n tbl)) \<and>
      at_most_one_current (fst (update_pinned_directory tg thread t_render now cid profiles tbl)) \<and>
      history_kept tbl (fst (update_pinned_directory tg thread t_render now cid profiles tbl)))"
proof -
  have e: "at_most_one_current []" by (simp add: at_most_one_current_def)
  have r: "at_most_one_current (fst (reconcile tg thread now cid cs k tbl))
      \<and> history_kept tbl (fst (reconcile tg thread now cid cs k tbl))"
    if a: "at_most_one_current tbl" for cs k
  proof -
    obtain tbl' tr out where run: "reconcile tg thread now cid cs k tbl = (tbl', tr, out)"
      by (cases "reconcile tg thread now cid cs k tbl") auto
    from reconcile_cases [OF run] show ?thesis
      using a run by (auto simp: save_keeps_invariant save_keeps_history history_kept_refl)
  qed
  show ?thesis
    using e r by (simp add: save_keeps_invariant save_keeps_history update_pinned_directory_def)
qed

theorem ledger_invariant_witness:
  "at_most_one_current [example_row] \<and>
   at_most_one_current (save_pinned_message t1 (- 100) 601 4 [example_row]) \<and>
   history_kept [example_row] (save_pinned_message t1 (- 100) 601 4 [example_row]) \<and>
   at_most_one_current (fst (reconcile tg_ok 0 t1 (- 100) [ascii ''part one'', ascii ''part two''] 4 [example_row])) \<and>
   history_kept [example_row] (fst (reconcile tg_ok 0 t1 (- 100) [ascii ''part one'', ascii ''part two''] 4 [example_row]))"
  using ledger_invariant [of "[example_row]" t1 "- 100" 601 4 tg_ok 0 "[ascii ''part one'', ascii ''part two'']"]
    example_ledger_ok
  by simp

section \<open>Reconciling a single chunk\<close>

lemma one_chunk_tail:
  "send_and_pin tg thread now cid [chunk] n (Some cur) tbl tr = (tbl, tr, Returned)"
  by (simp add: send_and_pin_def best_effort_edit_def Let_def)

lemma not_modified_text: "contains NOT_MODIFIED (lower (ascii ''Message is not modified: specified new message content and reply markup are exactly the same as a current content and reply markup of the message''))"
  by (simp add: NOT_MODIFIED_def lower_def ascii_def)

lemma not_found_text: "\<not> contains NOT_MODIFIED (lower (ascii ''Message to edit not found''))"
  by (simp add: NOT_MODIFIED_def lower_def ascii_def)

text \<open>
  C2. Reconciling a single chunk while the ledger has a current entry sends no message
  and pins nothing, whatever the transport answers to the edit; and when the transport
  answers the edit with "message is not modified", as it does for unchanged content, the
  run returns normally.
\<close>

theorem reconcile_one_chunk_idempotent:
  "get_current_pinned cid tbl = Some cur \<Longrightarrow>
   reconcile tg thread now cid [chunk] n tbl = (tbl', tr, out) \<Longrightarrow>
   \<not> list_ex is_send tr \<and> \<not> list_ex is_pin tr \<and>
   ((\<exists>e. tg [] (EditMessageText cid (message_id cur) chunk) = Inl (BadRequest e)
         \<and> contains NOT_MODIFIED (lower e)) \<longrightarrow> out = Returned)"
  by (auto simp: reconcile_def Let_def one_chunk_tail split: sum.splits tg_error.splits if_splits)

theorem reconcile_one_chunk_idempotent_witness:
  "reconcile tg_not_modified 0 t1 (- 100) [ascii ''directory''] 4 [example_row]
     = ([example_row], [EditMessageText (- 100) 500 (ascii ''directory'')], Returned) \<and>
   \<not> list_ex is_send [EditMessageText (- 100) 500 (ascii ''directory'')] \<and>
   \<not> list_ex is_pin [EditMessageText (- 100) 500 (ascii ''directory'')]"
proof -
  have cur: "get_current_pinned (- 100) [example_row] = Some example_row"
    by (simp add: get_current_pinned_def example_row_def)
  have mid: "message_id example_row = 500" by (simp add: example_row_def)
  have run: "reconcile tg_not_modified 0 t1 (- 100) [ascii ''directory''] 4 [example_row]
     = ([example_row], [EditMessageText (- 100) 500 (ascii ''directory'')], Returned)"
    by (simp add: reconcile_def Let_def cur mid tg_not_modified_def not_modified_text)
  from reconcile_one_chunk_idempotent [OF cur run] run show ?thesis by simp
qed

text \<open>
  C10. On the edit-in-place path (one chunk, a current entry, the edit returns or reports
  unchanged content) the reconciler writes nothing to the ledger, whatever profile count
  \<open>n\<close> it was called with: the ledger is the same and its current entry is still
  \<open>cur\<close>, with the message and the count recorded earlier.
\<close>

theorem reconcile_one_chunk_no_ledger_write:
  "get_current_pinned cid tbl = Some cur \<Longrightarrow>
   tg [] (EditMessageText cid (message_id cur) chunk) = Inr r
     \<or> tg [] (EditMessageText cid (message_id cur) chunk) = Inl (BadRequest e)
         \<and> contains NOT_MODIFIED (lower e) \<Longrightarrow>
   reconcile tg thread now cid [chunk] n tbl
     = (tbl, [EditMessageText cid (message_id cur) chunk], Returned) \<and>
   get_current_pinned cid (fst (reconcile tg thread now cid [chunk] n tbl)) = Some cur"
  by (auto simp: reconcile_def Let_def)

theorem reconcile_one_chunk_no_ledger_write_witness:
  "reconcile tg_ok 0 t1 (- 100) [ascii ''directory''] 4 [example_row]
     = ([example_row], [EditMessageText (- 100) 500 (ascii ''directory'')], Returned) \<and>
   get_current_pinned (- 100)
     (fst (reconcile tg_ok 0 t1 (- 100) [ascii ''directory''] 4 [example_row])) = Some example_row \<and>
   profile_count example_row = 3"
proof -
  have mid: "message_id example_row = 500" by (simp add: example_row_def)
  have ok: "tg_ok [] (EditMessageText (- 100) (message_id example_row) (ascii ''directory'')) = Inr 600
     \<or> tg_ok [] (EditMessageText (- 100) (message_id example_row) (ascii ''directory'')) = Inl (BadRequest [])
         \<and> contains NOT_MODIFIED (lower [])"
    by (simp add: tg_ok_def)
  have pc: "profile_count example_row = 3" by (simp add: example_row_def)
  have w: "reconcile tg_ok 0 t1 (- 100) [ascii ''directory''] 4 [example_row]
     = ([example_row], [EditMessageText (- 100) (message_id example_row) (ascii ''directory'')], Returned) \<and>
   get_current_pinned (- 100)
     (fst (reconcile tg_ok 0 t1 (- 100) [ascii ''directory''] 4 [example_row])) = Some example_row"
    by (rule reconcile_one_chunk_no_ledger_write
        [where tg = tg_ok and r = 600 and e = "[]", OF example_current ok])
  show ?thesis using w by (simp add: mid pc example_current)
qed

text \<open>
  C3. One chunk, a current entry, and an edit that fails with a \<open>BadRequest\<close> other
  than unchanged content (here the pinned message was deleted): the source logs that it
  creates a new message, but the run ends after the edit with nothing sent, nothing
  pinned and the ledger as it was.
\<close>

theorem one_chunk_edit_failure_sends_nothing:
  "reconcile tg_edit_not_found 0 t1 (- 100) [ascii ''directory''] 4 [example_row]
     = ([example_row], [EditMessageText (- 100) 500 (ascii ''directory'')], Returned)"
proof -
  have mid: "message_id example_row = 500" by (simp add: example_row_def)
  show ?thesis
    by (simp add: reconcile_def Let_def example_current mid tg_edit_not_found_def not_found_text one_chunk_tail)
qed

section \<open>Reconciling several chunks\<close>












section \<open>Rebinding a token\<close>

lemma update_npub_frame:
  "update_npub new uid tbl = Inr tbl' \<Longrightarrow>
     tbl' = map (\<lambda>r. if telegram_user_id r = uid then r\<lparr>npub := new\<rparr> else r) tbl"
  by (simp add: update_npub_def Let_def split: if_splits)

lemma rebind_fields:
  "map custom_name (map (\<lambda>r. if telegram_user_id r = uid then r\<lparr>npub := new\<rparr> else r) tbl) = map custom_name tbl"
  "map web_consent (map (\<lambda>r. if telegram_user_id r = uid then r\<lparr>npub := new\<rparr> else r) tbl) = map web_consent tbl"
  "map added_at (map (\<lambda>r. if telegram_user_id r = uid then r\<lparr>npub := new\<rparr> else r) tbl) = map added_at tbl"
  "map telegram_user_id (map (\<lambda>r. if telegram_user_id r = uid then r\<lparr>npub := new\<rparr> else r) tbl) = map telegram_user_id tbl"
  by (induction tbl) simp_all

text \<open>
  C9. When a user who has a profile sends a different npub, \<open>handle_message\<close> either
  updates the table, and then exactly the \<open>npub\<close> of that user's rows has changed, or
  the update fails on the primary key and the table is as it was. In both cases every
  row keeps its \<open>custom_name\<close>, \<open>web_consent\<close>, \<open>added_at\<close> and
  \<open>telegram_user_id\<close>.
\<close>

theorem rebind_preserves_custom_name:
  assumes "get_profile_by_user uid tbl = Some existing"
    and "npub existing \<noteq> new"
    and "handle_message now uid username user_name new tbl = (res, tbl')"
  shows "(res = Inr NpubUpdated \<and>
           tbl' = map (\<lambda>r. if telegram_user_id r = uid then r\<lparr>npub := new\<rparr> else r) tbl
         \<or> res = Inl IntegrityError \<and> tbl' = tbl) \<and>
    map custom_name tbl' = map custom_name tbl \<and>
    map web_consent tbl' = map web_consent tbl \<and>
    map added_at tbl' = map added_at tbl \<and>
    map telegram_user_id tbl' = map telegram_user_id tbl"
proof (cases "update_npub new uid tbl")
  case (Inl e)
  have e: "e = IntegrityError" by (cases e) simp
  have "res = Inl IntegrityError" "tbl' = tbl"
    using assms Inl e by (simp_all add: handle_message_def)
  then show ?thesis by simp
next
  case (Inr t)
  have r: "res = Inr NpubUpdated" and t: "tbl' = t"
    using assms Inr by (simp_all add: handle_message_def)
  note m = update_npub_frame [OF Inr]
  show ?thesis unfolding r t m
    by (simp only: rebind_fields simp_thms)
qed

theorem rebind_preserves_custom_name_witness:
  "handle_message t1 42 (Some (ascii ''bob'')) (ascii ''Bob B'') other_npub
      [example_profile (Some (ascii ''Satoshi'')) (Some (ascii ''bob'')) (Some (ascii ''Bob B''))]
    = (Inr NpubUpdated,
       [(example_profile (Some (ascii ''Satoshi'')) (Some (ascii ''bob'')) (Some (ascii ''Bob B'')))
          \<lparr>npub := other_npub\<rparr>]) \<and>
   map custom_name [(example_profile (Some (ascii ''Satoshi'')) (Some (ascii ''bob'')) (Some (ascii ''Bob B'')))
          \<lparr>npub := other_npub\<rparr>] = [Some (ascii ''Satoshi'')]"
proof -
  let ?p = "example_profile (Some (ascii ''Satoshi'')) (Some (ascii ''bob'')) (Some (ascii ''Bob B''))"
  have uid: "telegram_user_id ?p = 42" by (simp add: example_profile_def)
  have ex: "get_profile_by_user 42 [?p] = Some ?p"
    by (simp add: get_profile_by_user_def uid)
  have ne: "npub ?p \<noteq> other_npub"
    by (simp add: example_profile_def other_npub_def ascii_def)
  have run: "handle_message t1 42 (Some (ascii ''bob'')) (ascii ''Bob B'') other_npub [?p]
      = (Inr NpubUpdated, [?p\<lparr>npub := other_npub\<rparr>])"
    using ne by (simp add: handle_message_def ex update_npub_def uid)
  have cn: "custom_name ?p = Some (ascii ''Satoshi'')" by (simp add: example_profile_def)
  from rebind_preserves_custom_name [OF ex ne run] run cn show ?thesis by simp
qed

section \<open>The renderer and the clock\<close>

lemma io_result:
  "build_directory_messages_io profiles cid w
     = (build_directory_messages (clock w (reads w)) profiles cid, w\<lparr>reads := Suc (reads w)\<rparr>)"
  by (simp add: build_directory_messages_io_def build_directory_messages_def datetime_now_def
      Let_def split: prod.splits del: upt_Suc)

text \<open>
  C5, as stated, fails: the renderer takes no timestamp from its caller and reads the
  clock itself. Two runs with the same profile list and the same chat return different
  chunks when the clock shows another minute, and a run leaves the clock with one more
  reading taken.
\<close>

theorem render_reads_the_clock:
  "fst (build_directory_messages_io [] 0 (world_at t0))
     \<noteq> fst (build_directory_messages_io [] 0 (world_at t1)) \<and>
   reads (snd (build_directory_messages_io [] 0 (world_at t0))) = Suc (reads (world_at t0))"
proof -
  have "build_directory_messages t0 [] 0 \<noteq> build_directory_messages t1 [] 0"
    by (simp add: build_directory_messages_def empty_directory_def strftime_def zfill_def
        str_nat.simps t0_def t1_def ascii_def)
  then show ?thesis
    by (simp add: io_result world_at_def)
qed

text \<open>
  C5, amended. A run reads the clock exactly once and changes nothing else; its chunks
  are those of the profile list at that reading, and they depend on the reading only
  through its text to the minute: two runs whose readings format alike return the same
  chunks for the same profile list, whatever the chat.
\<close>

theorem render_determined_by_clock_reading:
  "snd (build_directory_messages_io profiles cid w) = w\<lparr>reads := Suc (reads w)\<rparr> \<and>
   fst (build_directory_messages_io profiles cid w)
     = build_directory_messages (clock w (reads w)) profiles cid \<and>
   (strftime (clock w (reads w)) = strftime (clock w' (reads w')) \<longrightarrow>
      fst (build_directory_messages_io profiles cid w)
        = fst (build_directory_messages_io profiles cid' w'))"
  by (simp add: io_result build_directory_messages_def)

theorem render_determined_by_clock_reading_witness:
  "strftime (clock (world_at t0) (reads (world_at t0)))
     = strftime (clock (world_at (t0\<lparr>second := 59\<rparr>)) (reads (world_at (t0\<lparr>second := 59\<rparr>)))) \<and>
   fst (build_directory_messages_io [example_profile None None None] (- 100) (world_at t0))
     = fst (build_directory_messages_io [example_profile None None None] 7
              (world_at (t0\<lparr>second := 59\<rparr>))) \<and>
   snd (build_directory_messages_io [example_profile None None None] (- 100) (world_at t0))
     = (world_at t0)\<lparr>reads := Suc (reads (world_at t0))\<rparr>"
proof -
  have s: "strftime (clock (world_at t0) (reads (world_at t0)))
     = strftime (clock (world_at (t0\<lparr>second := 59\<rparr>)) (reads (world_at (t0\<lparr>second := 59\<rparr>))))"
    by (simp add: world_at_def strftime_def)
  from render_determined_by_clock_reading
    [of "[example_profile None None None]" "- 100" "world_at t0" "world_at (t0\<lparr>second := 59\<rparr>)" 7]
    s show ?thesis by blast
qed

section \<open>The lines of the chunks\<close>

lemma chunk_layout_snoc:
  "chunk_layout h ending (gs @ [g]) =
     chunk_layout h chain_note gs
     @ [(if gs = [] then h else HEADER_CONT) @ join (ascii ''\<newline>'') g @ ending]"
proof (induction gs arbitrary: h)
  case Nil
  show ?case by simp
next
  case (Cons a gs)
  show ?case
  proof (cases gs)
    case Nil
    then show ?thesis by simp
  next
    case (Cons b gs')
    then show ?thesis using Cons.IH [of HEADER_CONT] by simp
  qed
qed

lemma pack_loop_seal:
  "L + (length (format_profile_line i p) + 1) + length (footer_template n d) + length chain_note
      > MAX_MSG_LENGTH \<Longrightarrow>
   pack_loop n d ((i, p) # items) (ms, ls, L, h)
     = pack_loop n d items
         (ms @ [h @ join (ascii ''\<newline>'') ls @ chain_note], [format_profile_line i p],
          length h + (length (format_profile_line i p) + 1), HEADER_CONT)"
  by (simp add: Let_def)

lemma pack_loop_keep:
  "\<not> L + (length (format_profile_line i p) + 1) + length (footer_template n d) + length chain_note
      > MAX_MSG_LENGTH \<Longrightarrow>
   pack_loop n d ((i, p) # items) (ms, ls, L, h)
     = pack_loop n d items (ms, ls @ [format_profile_line i p],
         L + (length (format_profile_line i p) + 1), h)"
  by (simp add: Let_def)

lemma pack_loop_groups:
  "pack_loop n d items
      (chunk_layout HEADER_FIRST chain_note gs, ls, L, if gs = [] then HEADER_FIRST else HEADER_CONT)
     = (ms', ls', L', h') \<Longrightarrow>
   \<exists>gs'. ms' = chunk_layout HEADER_FIRST chain_note gs' \<and>
         h' = (if gs' = [] then HEADER_FIRST else HEADER_CONT) \<and>
         concat gs' @ ls' = concat gs @ ls @ map (\<lambda>(i, p). format_profile_line i p) items"
proof (induction items arbitrary: gs ls L)
  case Nil
  then have "ms' = chunk_layout HEADER_FIRST chain_note gs"
    "h' = (if gs = [] then HEADER_FIRST else HEADER_CONT)" "ls' = ls"
    by simp_all
  then show ?case by (intro exI [of _ gs]) simp
next
  case (Cons ip items)
  obtain i p where ip: "ip = (i, p)" by (cases ip)
  let ?line = "format_profile_line i p"
  let ?h = "if gs = [] then HEADER_FIRST else HEADER_CONT"
  show ?case
  proof (cases "L + (length ?line + 1) + length (footer_template n d) + length chain_note > MAX_MSG_LENGTH")
    case True
    have seal: "chunk_layout HEADER_FIRST chain_note gs
        @ [?h @ join (ascii ''\<newline>'') ls @ chain_note]
        = chunk_layout HEADER_FIRST chain_note (gs @ [ls])"
      by (simp only: chunk_layout_snoc)
    have hc: "HEADER_CONT = (if gs @ [ls] = [] then HEADER_FIRST else HEADER_CONT)" by simp
    have "pack_loop n d items
        (chunk_layout HEADER_FIRST chain_note (gs @ [ls]), [?line], length ?h + (length ?line + 1),
         if gs @ [ls] = [] then HEADER_FIRST else HEADER_CONT) = (ms', ls', L', h')"
      using Cons.prems unfolding ip pack_loop_seal [OF True] seal hc [symmetric] .
    from Cons.IH [OF this] obtain gs' where
      g: "ms' = chunk_layout HEADER_FIRST chain_note gs'"
        "h' = (if gs' = [] then HEADER_FIRST else HEADER_CONT)"
        "concat gs' @ ls' = concat (gs @ [ls]) @ [?line] @ map (\<lambda>(i, p). format_profile_line i p) items"
      by blast
    show ?thesis unfolding ip using g by (intro exI [of _ gs']) simp
  next
    case False
    have "pack_loop n d items
        (chunk_layout HEADER_FIRST chain_note gs, ls @ [?line], L + (length ?line + 1), ?h)
        = (ms', ls', L', h')"
      using Cons.prems unfolding ip pack_loop_keep [OF False] .
    from Cons.IH [OF this] obtain gs' where
      g: "ms' = chunk_layout HEADER_FIRST chain_note gs'"
        "h' = (if gs' = [] then HEADER_FIRST else HEADER_CONT)"
        "concat gs' @ ls' = concat gs @ (ls @ [?line]) @ map (\<lambda>(i, p). format_profile_line i p) items"
      by blast
    show ?thesis unfolding ip using g by (intro exI [of _ gs']) simp
  qed
qed

lemma build_nonempty:
  "profiles \<noteq> [] \<Longrightarrow>
   pack_loop (length profiles) (strftime now) (zip [1 ..< Suc (length profiles)] profiles)
       ([], [], length HEADER_FIRST, HEADER_FIRST) = (ms, ls, L, h) \<Longrightarrow>
   build_directory_messages now profiles cid
     = ms @ [h @ join (ascii ''\<newline>'') ls @ footer_template (length profiles) (strftime now)]"
  by (simp add: build_directory_messages_def Let_def del: upt_Suc)

text \<open>
  C6. For a non-empty profile list the chunks are laid out from groups of lines, each
  chunk a header, the lines of its group and an ending, and the groups taken in order
  are exactly the lines of the profiles in input order, one line for each profile,
  numbered from 1 through the whole list, each of the form index, full stop, display
  name, arrow, link to the profile with the shortened npub as its text.
\<close>

theorem lines_reproduce_profiles:
  "profiles \<noteq> [] \<Longrightarrow>
   \<exists>groups.
      build_directory_messages now profiles cid
        = chunk_layout HEADER_FIRST (footer_template (length profiles) (strftime now)) groups \<and>
      concat groups
        = map (\<lambda>(i, p). str_nat i @ ascii ''. '' @ get_display_name p @ [32, 8594, 32]
                 @ ascii ''<a href='' @ [39] @ NJUMP_BASE @ npub p @ [39] @ ascii ''>''
                 @ take 16 (npub p) @ ascii ''...'' @ ascii ''</a>'')
            (zip [1 ..< Suc (length profiles)] profiles)"
proof -
  assume ne: "profiles \<noteq> []"
  let ?n = "length profiles" and ?d = "strftime now"
  let ?items = "zip [1 ..< Suc (length profiles)] profiles"
  obtain ms ls L h where run:
    "pack_loop ?n ?d ?items ([], [], length HEADER_FIRST, HEADER_FIRST) = (ms, ls, L, h)"
    by (cases "pack_loop ?n ?d ?items ([], [], length HEADER_FIRST, HEADER_FIRST)") auto
  have "pack_loop ?n ?d ?items
      (chunk_layout HEADER_FIRST chain_note [], [], length HEADER_FIRST,
       if ([]::pystr list list) = [] then HEADER_FIRST else HEADER_CONT) = (ms, ls, L, h)"
    using run by simp
  from pack_loop_groups [OF this] obtain gs where
    ms: "ms = chunk_layout HEADER_FIRST chain_note gs" and
    h: "h = (if gs = [] then HEADER_FIRST else HEADER_CONT)" and
    c: "concat gs @ ls = map (\<lambda>(i, p). format_profile_line i p) ?items"
    by auto
  have b: "build_directory_messages now profiles cid
      = ms @ [h @ join (ascii ''\<newline>'') ls @ footer_template ?n ?d]"
    using ne run by (simp add: build_directory_messages_def Let_def del: upt_Suc)
  have l: "build_directory_messages now profiles cid
      = chunk_layout HEADER_FIRST (footer_template ?n ?d) (gs @ [ls])"
    unfolding b ms h by (simp only: chunk_layout_snoc)
  have f: "(\<lambda>(i, p). format_profile_line i p)
      = (\<lambda>(i, p). str_nat i @ ascii ''. '' @ get_display_name p @ [32, 8594, 32]
                 @ ascii ''<a href='' @ [39] @ NJUMP_BASE @ npub p @ [39] @ ascii ''>''
                 @ take 16 (npub p) @ ascii ''...'' @ ascii ''</a>'')"
    by (simp only: format_profile_line_def Let_def append_assoc)
  have "concat (gs @ [ls]) = map (\<lambda>(i, p). format_profile_line i p) ?items"
    using c by simp
  with l show ?thesis unfolding f by blast
qed

theorem lines_reproduce_profiles_witness:
  "[example_profile None (Some (ascii ''bob'')) None] \<noteq> [] \<and>
   (\<exists>groups.
      build_directory_messages t0 [example_profile None (Some (ascii ''bob'')) None] (- 100)
        = chunk_layout HEADER_FIRST (footer_template 1 (strftime t0)) groups \<and>
      concat groups
        = [str_nat 1 @ ascii ''. '' @ ascii ''@bob'' @ [32, 8594, 32]
           @ ascii ''<a href='' @ [39] @ NJUMP_BASE
           @ npub (example_profile None (Some (ascii ''bob'')) None) @ [39] @ ascii ''>''
           @ take 16 (npub (example_profile None (Some (ascii ''bob'')) None)) @ ascii ''...''
           @ ascii ''</a>''])"
proof -
  have ne: "[example_profile None (Some (ascii ''bob'')) None] \<noteq> []" by simp
  have dn: "get_display_name (example_profile None (Some (ascii ''bob'')) None) = ascii ''@bob''"
    by (simp add: get_display_name_def example_profile_def truthy_def ascii_def)
  from lines_reproduce_profiles [OF ne, of t0 "- 100"] show ?thesis
    by (simp add: dn)
qed

section \<open>The length of the chunks\<close>

lemma len_str_nat_1: "n < 10 \<Longrightarrow> length (str_nat n) = 1"
  by (subst str_nat.simps) simp

lemma len_str_nat_2: "n < 100 \<Longrightarrow> length (str_nat n) \<le> 2"
  by (subst str_nat.simps) (simp add: len_str_nat_1)

lemma len_str_nat_3: "n < 1000 \<Longrightarrow> length (str_nat n) \<le> 3"
proof -
  assume a: "n < 1000"
  then have "n div 10 < 100" by simp
  from len_str_nat_2 [OF this] show ?thesis by (subst str_nat.simps) simp
qed

lemma len_str_nat_4: "n < 10000 \<Longrightarrow> length (str_nat n) \<le> 4"
proof -
  assume a: "n < 10000"
  then have "n div 10 < 1000" by simp
  from len_str_nat_3 [OF this] show ?thesis by (subst str_nat.simps) simp
qed

lemma len_zfill: "length s \<le> w \<Longrightarrow> length (zfill w s) = w"
  by (simp add: zfill_def)

lemma len_strftime: "is_datetime t \<Longrightarrow> length (strftime t) = 16"
proof -
  assume v: "is_datetime t"
  have "length (zfill 2 (str_nat (day t))) = 2" "length (zfill 2 (str_nat (month t))) = 2"
    "length (zfill 4 (str_nat (year t))) = 4" "length (zfill 2 (str_nat (hour t))) = 2"
    "length (zfill 2 (str_nat (minute t))) = 2"
    using v by (simp_all add: is_datetime_def len_zfill len_str_nat_2 len_str_nat_4)
  then show ?thesis by (simp add: strftime_def ascii_def)
qed

lemma len_headers:
  "length HEADER_FIRST = 37" "length HEADER_CONT = 42" "length chain_note = 47"
  by (simp_all add: HEADER_FIRST_def HEADER_CONT_def chain_note_def ascii_def)

lemma len_footer_ge: "4 \<le> length (footer_template n d)"
  by (simp add: footer_template_def ascii_def)

lemma len_empty_directory: "length (empty_directory d) = 161 + length d"
  by (simp add: empty_directory_def ascii_def)

lemma len_join_snoc:
  "length (join sep (ls @ [l]))
     = (if ls = [] then length l else length (join sep ls) + length sep + length l)"
  by (induction sep ls rule: join.induct) simp_all

lemma pack_loop_bound:
  assumes fit: "\<forall>(i, p)\<in>set items. length HEADER_CONT + length (format_profile_line i p)
            + max (length (footer_template n d)) (length chain_note) \<le> MAX_MSG_LENGTH"
    and old: "\<forall>m\<in>set ms. length m \<le> MAX_MSG_LENGTH"
    and hdr: "h = HEADER_FIRST \<or> h = HEADER_CONT"
    and track: "length h + length (join (ascii ''\<newline>'') ls) \<le> L + 4"
    and cur: "ls \<noteq> [] \<longrightarrow> length h + length (join (ascii ''\<newline>'') ls)
            + max (length (footer_template n d)) (length chain_note) \<le> MAX_MSG_LENGTH"
    and run: "pack_loop n d items (ms, ls, L, h) = (ms', ls', L', h')"
  shows "(\<forall>m\<in>set ms'. length m \<le> MAX_MSG_LENGTH) \<and> (h' = HEADER_FIRST \<or> h' = HEADER_CONT) \<and>
         (ls' \<noteq> [] \<longrightarrow> length h' + length (join (ascii ''\<newline>'') ls')
            + max (length (footer_template n d)) (length chain_note) \<le> MAX_MSG_LENGTH)"
  using fit old hdr track cur run
proof (induction items arbitrary: ms ls L h)
  case Nil
  then show ?case by simp
next
  case (Cons ip items)
  obtain i p where ip: "ip = (i, p)" by (cases ip)
  define F where "F = length (footer_template n d)"
  define ll where "ll = length (format_profile_line i p)"
  define J where "J = length (join (ascii ''\<newline>'') ls)"
  have F4: "4 \<le> F" unfolding F_def by (rule len_footer_ge)
  have fit_line: "42 + ll + max F 47 \<le> 4000"
    using Cons.prems(1) unfolding ip F_def ll_def by (simp add: len_headers MAX_MSG_LENGTH_def)
  have fit_rest: "\<forall>(i, p)\<in>set items. length HEADER_CONT + length (format_profile_line i p)
            + max (length (footer_template n d)) (length chain_note) \<le> MAX_MSG_LENGTH"
    using Cons.prems(1) by simp
  have hlen: "length h = 37 \<or> length h = 42"
    using Cons.prems(3) by (auto simp: len_headers)
  have track: "length h + J \<le> L + 4" using Cons.prems(4) unfolding J_def .
  have cur: "ls \<noteq> [] \<longrightarrow> length h + J + max F 47 \<le> 4000"
    using Cons.prems(5) unfolding J_def F_def by (simp add: len_headers MAX_MSG_LENGTH_def)
  have nl: "length (ascii ''\<newline>'') = 1" by (simp add: ascii_def)
  show ?case
  proof (cases "L + (length (format_profile_line i p) + 1) + length (footer_template n d)
                  + length chain_note > MAX_MSG_LENGTH")
    case True
    have run': "pack_loop n d items
        (ms @ [h @ join (ascii ''\<newline>'') ls @ chain_note], [format_profile_line i p],
         length h + (length (format_profile_line i p) + 1), HEADER_CONT) = (ms', ls', L', h')"
      using Cons.prems(6) unfolding ip pack_loop_seal [OF True] .
    have sealed: "length (h @ join (ascii ''\<newline>'') ls @ chain_note) \<le> MAX_MSG_LENGTH"
    proof (cases "ls = []")
      case True
      then show ?thesis using hlen by (auto simp: len_headers MAX_MSG_LENGTH_def)
    next
      case False
      then have "length h + J + max F 47 \<le> 4000" using cur by simp
      then show ?thesis unfolding J_def by (simp add: len_headers MAX_MSG_LENGTH_def)
    qed
    have old': "\<forall>m\<in>set (ms @ [h @ join (ascii ''\<newline>'') ls @ chain_note]). length m \<le> MAX_MSG_LENGTH"
      using Cons.prems(2) sealed by simp
    have hdr': "HEADER_CONT = HEADER_FIRST \<or> HEADER_CONT = HEADER_CONT" by simp
    have track': "length HEADER_CONT + length (join (ascii ''\<newline>'') [format_profile_line i p])
        \<le> length h + (length (format_profile_line i p) + 1) + 4"
      using hlen by (auto simp: len_headers)
    have cur': "[format_profile_line i p] \<noteq> [] \<longrightarrow>
        length HEADER_CONT + length (join (ascii ''\<newline>'') [format_profile_line i p])
          + max (length (footer_template n d)) (length chain_note) \<le> MAX_MSG_LENGTH"
      using fit_line unfolding F_def ll_def by (simp add: len_headers MAX_MSG_LENGTH_def)
    from Cons.IH [OF fit_rest old' hdr' track' cur' run'] show ?thesis .
  next
    case False
    have run': "pack_loop n d items (ms, ls @ [format_profile_line i p],
         L + (length (format_profile_line i p) + 1), h) = (ms', ls', L', h')"
      using Cons.prems(6) unfolding ip pack_loop_keep [OF False] .
    have chk: "L + (ll + 1) + F + 47 \<le> 4000"
      using False unfolding ll_def F_def by (simp add: len_headers MAX_MSG_LENGTH_def)
    have jl: "length (join (ascii ''\<newline>'') (ls @ [format_profile_line i p])) \<le> J + 1 + ll"
      unfolding J_def ll_def by (simp add: len_join_snoc nl)
    have track': "length h + length (join (ascii ''\<newline>'') (ls @ [format_profile_line i p]))
        \<le> L + (length (format_profile_line i p) + 1) + 4"
      using jl track unfolding ll_def by linarith
    have "length h + length (join (ascii ''\<newline>'') (ls @ [format_profile_line i p])) + max F 47 \<le> 4000"
      using jl track chk F4 by (simp add: max_def split: if_splits)
    then have cur': "ls @ [format_profile_line i p] \<noteq> [] \<longrightarrow>
        length h + length (join (ascii ''\<newline>'') (ls @ [format_profile_line i p]))
          + max (length (footer_template n d)) (length chain_note) \<le> MAX_MSG_LENGTH"
      unfolding F_def by (simp add: len_headers MAX_MSG_LENGTH_def)
    from Cons.IH [OF fit_rest Cons.prems(2) Cons.prems(3) track' cur' run'] show ?thesis .
  qed
qed

lemma one_item: "zip [1 ..< Suc 1] [p] = [(1, p)]"
  by simp

lemma len_str_nat_one: "length (str_nat 1) = 1"
  by (rule len_str_nat_1) simp

lemma len_format_profile_line:
  "length (format_profile_line i p)
     = length (str_nat i) + length (get_display_name p) + length (npub p)
       + min (length (npub p)) 16 + 40"
  by (simp add: format_profile_line_def Let_def NJUMP_BASE_def ascii_def)

lemma len_example_npub: "length (npub (example_profile c u f)) = 63"
  by (simp add: example_profile_def ascii_def)

lemma len_long_line:
  "length (format_profile_line 1 (example_profile (Some long_name) None None)) = 4120"
proof -
  have n: "length long_name = 4000" by (simp only: long_name_def length_replicate)
  have ne: "long_name \<noteq> []" using n by auto
  have d: "get_display_name (example_profile (Some long_name) None None) = long_name"
    by (simp add: get_display_name_def example_profile_def truthy_def ne)
  show ?thesis
    unfolding len_format_profile_line d n len_example_npub len_str_nat_one
    by simp
qed

text \<open>
  C1, as stated, fails: a line is never split, so a profile whose display name has 4000
  characters gives a chunk longer than \<open>MAX_MSG_LENGTH\<close>. The renderer first seals an
  empty chunk and then puts the line, unchecked, in a continuation chunk.
\<close>

theorem long_name_overflows_chunk:
  "build_directory_messages t0 [example_profile (Some long_name) None None] (- 100)
     = [HEADER_FIRST @ chain_note,
        HEADER_CONT @ format_profile_line 1 (example_profile (Some long_name) None None)
          @ footer_template 1 (strftime t0)] \<and>
   length (HEADER_CONT @ format_profile_line 1 (example_profile (Some long_name) None None)
          @ footer_template 1 (strftime t0)) > MAX_MSG_LENGTH"
proof -
  let ?p = "example_profile (Some long_name) None None"
  have big: "length HEADER_FIRST + (length (format_profile_line 1 ?p) + 1)
      + length (footer_template 1 (strftime t0)) + length chain_note > MAX_MSG_LENGTH"
    unfolding len_long_line MAX_MSG_LENGTH_def by simp
  have loop: "pack_loop 1 (strftime t0) [(1, ?p)] ([], [], length HEADER_FIRST, HEADER_FIRST)
      = ([HEADER_FIRST @ chain_note], [format_profile_line 1 ?p],
         length HEADER_FIRST + (length (format_profile_line 1 ?p) + 1), HEADER_CONT)"
    unfolding pack_loop_seal [OF big] by simp
  have n1: "length [?p] = 1" by simp
  have run: "pack_loop (length [?p]) (strftime t0) (zip [1 ..< Suc (length [?p])] [?p])
       ([], [], length HEADER_FIRST, HEADER_FIRST)
      = ([HEADER_FIRST @ chain_note], [format_profile_line 1 ?p],
         length HEADER_FIRST + (length (format_profile_line 1 ?p) + 1), HEADER_CONT)"
    unfolding n1 one_item by (rule loop)
  have ne: "[?p] \<noteq> []" by simp
  have b: "build_directory_messages t0 [?p] (- 100)
      = [HEADER_FIRST @ chain_note,
         HEADER_CONT @ format_profile_line 1 ?p @ footer_template 1 (strftime t0)]"
    unfolding build_nonempty [OF ne run] by simp
  have l: "length (HEADER_CONT @ format_profile_line 1 ?p @ footer_template 1 (strftime t0))
      > MAX_MSG_LENGTH"
    unfolding length_append len_long_line MAX_MSG_LENGTH_def by simp
  from b l show ?thesis by (rule conjI)
qed

text \<open>
  C1, amended. When every line, alone in a continuation chunk, fits with the longer of
  the two endings, every chunk has at most \<open>MAX_MSG_LENGTH\<close> characters. The check
  before a line is added reserves room for both endings at once, which covers the larger.
  The clock reading is a \<open>datetime\<close>, so that the date has sixteen characters.
\<close>

theorem chunks_within_limit:
  assumes clock: "is_datetime now"
    and fit: "\<forall>(i, p)\<in>set (zip [1 ..< Suc (length profiles)] profiles).
            length HEADER_CONT + length (format_profile_line i p)
            + max (length (footer_template (length profiles) (strftime now))) (length chain_note)
            \<le> MAX_MSG_LENGTH"
  shows "\<forall>m\<in>set (build_directory_messages now profiles cid). length m \<le> MAX_MSG_LENGTH"
proof (cases "profiles = []")
  case True
  then show ?thesis
    by (simp add: build_directory_messages_def len_empty_directory len_strftime [OF clock]
        MAX_MSG_LENGTH_def)
next
  case False
  let ?n = "length profiles" and ?d = "strftime now"
  let ?items = "zip [1 ..< Suc (length profiles)] profiles"
  obtain ms ls L h where run:
    "pack_loop ?n ?d ?items ([], [], length HEADER_FIRST, HEADER_FIRST) = (ms, ls, L, h)"
    by (cases "pack_loop ?n ?d ?items ([], [], length HEADER_FIRST, HEADER_FIRST)") auto
  have b: "build_directory_messages now profiles cid
      = ms @ [h @ join (ascii ''\<newline>'') ls @ footer_template ?n ?d]"
    using False run by (simp add: build_directory_messages_def Let_def del: upt_Suc)
  have i1: "\<forall>m\<in>set ([]::pystr list). length m \<le> MAX_MSG_LENGTH" by simp
  have i2: "HEADER_FIRST = HEADER_FIRST \<or> HEADER_FIRST = HEADER_CONT" by simp
  have i3: "length HEADER_FIRST + length (join (ascii ''\<newline>'') []) \<le> length HEADER_FIRST + 4"
    by simp
  have i4: "([]::pystr list) \<noteq> [] \<longrightarrow> length HEADER_FIRST + length (join (ascii ''\<newline>'') [])
      + max (length (footer_template ?n ?d)) (length chain_note) \<le> MAX_MSG_LENGTH" by simp
  from pack_loop_bound [OF fit i1 i2 i3 i4 run]
  have ms: "\<forall>m\<in>set ms. length m \<le> MAX_MSG_LENGTH"
    and h: "h = HEADER_FIRST \<or> h = HEADER_CONT"
    and c: "ls \<noteq> [] \<longrightarrow> length h + length (join (ascii ''\<newline>'') ls)
            + max (length (footer_template ?n ?d)) (length chain_note) \<le> MAX_MSG_LENGTH"
    by blast+
  obtain p ps where pp: "profiles = p # ps" using False by (cases profiles) auto
  have "(1, p) \<in> set ?items" unfolding pp by (simp add: upt_conv_Cons del: upt_Suc)
  with fit have one: "length HEADER_CONT + length (format_profile_line 1 p)
            + max (length (footer_template ?n ?d)) (length chain_note) \<le> MAX_MSG_LENGTH"
    by blast
  have "length (h @ join (ascii ''\<newline>'') ls @ footer_template ?n ?d) \<le> MAX_MSG_LENGTH"
  proof (cases "ls = []")
    case True
    then show ?thesis using h one by (auto simp: len_headers)
  next
    case False
    then show ?thesis using c by simp
  qed
  then show ?thesis unfolding b using ms by simp
qed

theorem chunks_within_limit_witness:
  "is_datetime t0 \<and>
   list_all (\<lambda>m. length m \<le> MAX_MSG_LENGTH)
     (build_directory_messages t0 [example_profile None (Some (ascii ''bob'')) None] (- 100))"
proof -
  let ?p = "example_profile None (Some (ascii ''bob'')) None"
  have clock: "is_datetime t0" by (simp add: is_datetime_def t0_def)
  have d: "length (get_display_name ?p) = 4"
    by (simp add: get_display_name_def example_profile_def truthy_def ascii_def)
  note s = len_str_nat_one
  have line: "length (format_profile_line 1 ?p) = 124"
    unfolding len_format_profile_line d s len_example_npub by simp
  have foot: "length (footer_template 1 (strftime t0)) = 50"
    unfolding footer_template_def length_append s len_strftime [OF clock]
    by (simp add: ascii_def)
  have n1: "length [?p] = 1" by simp
  have fit: "\<forall>(i, p)\<in>set (zip [1 ..< Suc (length [?p])] [?p]).
            length HEADER_CONT + length (format_profile_line i p)
            + max (length (footer_template (length [?p]) (strftime t0))) (length chain_note)
            \<le> MAX_MSG_LENGTH"
    unfolding n1 one_item using line foot by (simp add: len_headers MAX_MSG_LENGTH_def)
  from chunks_within_limit [OF clock fit] clock show ?thesis by (simp add: list_all_iff)
qed

end
